theory Spec2Isabelle
  imports Complex_Main
begin

section \<open>Python values used by the backend\<close>

text \<open>
  The backend is Python. A Python \<open>str\<close> is modelled as a \<open>string\<close>, one \<open>char\<close> per
  code point, so the model covers text whose code points are below 256 (Latin-1).
  Python integers are unbounded and are modelled as \<open>int\<close>; lengths and slice bounds
  are \<open>nat\<close>. An exception that leaves a function is a value \<open>Inl e\<close> of a sum type.
\<close>

datatype py_exception = IndexError | NameError | JsonableError string

text \<open>\<open>xs[i]\<close> for a non-negative index: out of range raises IndexError.\<close>

definition py_index :: "'a list \<Rightarrow> nat \<Rightarrow> py_exception + 'a" where
  "py_index xs i = (if i < length xs then Inr (xs ! i) else Inl IndexError)"

text \<open>\<open>xs[-1]\<close>: the last element, IndexError on the empty list.\<close>

definition py_last :: "'a list \<Rightarrow> py_exception + 'a" where
  "py_last xs = (if xs = [] then Inl IndexError else Inr (last xs))"

text \<open>\<open>xs[-n:]\<close> for positive \<open>n\<close>: the last \<open>n\<close> elements, all of them when there are fewer.\<close>

definition py_lastn :: "nat \<Rightarrow> 'a list \<Rightarrow> 'a list" where
  "py_lastn n xs = drop (length xs - n) xs"

subsection \<open>String methods\<close>

text \<open>The characters \<open>str.strip()\<close> removes and \<open>str.isspace()\<close> accepts, below 256.\<close>

definition isspace :: "char \<Rightarrow> bool" where
  "isspace c = (c \<in> set [CHR 0x09, CHR 0x0A, CHR 0x0B, CHR 0x0C, CHR 0x0D,
                          CHR 0x1C, CHR 0x1D, CHR 0x1E, CHR 0x1F, CHR 0x20,
                          CHR 0x85, CHR 0xA0])"

definition lstrip :: "string \<Rightarrow> string" where
  "lstrip s = dropWhile isspace s"

definition rstrip :: "string \<Rightarrow> string" where
  "rstrip s = rev (dropWhile isspace (rev s))"

definition strip :: "string \<Rightarrow> string" where
  "strip s = rstrip (lstrip s)"

definition startswith :: "string \<Rightarrow> string \<Rightarrow> bool" where
  "startswith s p = (take (length p) s = p)"

text \<open>\<open>s.split(c, 1)\<close> for a one-character separator: one segment when \<open>c\<close> does not
  occur, otherwise the text before the first \<open>c\<close> and the text after it.\<close>

definition split1 :: "char \<Rightarrow> string \<Rightarrow> string list" where
  "split1 c s =
     (if c \<in> set s
      then [takeWhile (\<lambda>x. x \<noteq> c) s, tl (dropWhile (\<lambda>x. x \<noteq> c) s)]
      else [s])"

text \<open>\<open>s.rfind(sep)\<close> for a non-empty separator: the greatest index where \<open>sep\<close> starts.\<close>

definition rfind :: "string \<Rightarrow> string \<Rightarrow> nat option" where
  "rfind sep s =
     (case filter (\<lambda>i. startswith (drop i s) sep) (rev [0 ..< Suc (length s)]) of
        [] \<Rightarrow> None
      | i # _ \<Rightarrow> Some i)"

text \<open>\<open>s.rsplit(sep, 1)\<close>: split at the last occurrence of \<open>sep\<close>, if there is one.\<close>

definition rsplit1 :: "string \<Rightarrow> string \<Rightarrow> string list" where
  "rsplit1 sep s =
     (case rfind sep s of
        None \<Rightarrow> [s]
      | Some i \<Rightarrow> [take i s, drop (i + length sep) s])"

text \<open>\<open>sep.join(xs)\<close>.\<close>

fun join :: "string \<Rightarrow> string list \<Rightarrow> string" where
  "join sep [] = []"
| "join sep [x] = x"
| "join sep (x # y # ys) = x @ sep @ join sep (y # ys)"

text \<open>\<open>s.replace(a, b)\<close> for one-character \<open>a\<close> and \<open>b\<close>.\<close>

definition replace_char :: "char \<Rightarrow> char \<Rightarrow> string \<Rightarrow> string" where
  "replace_char a b s = map (\<lambda>c. if c = a then b else c) s"

text \<open>The line boundaries of \<open>str.splitlines()\<close> below 256; \<open>\r\n\<close> counts as one.\<close>

definition is_linebreak :: "char \<Rightarrow> bool" where
  "is_linebreak c = (c \<in> set [CHR 0x0A, CHR 0x0B, CHR 0x0C, CHR 0x0D,
                               CHR 0x1C, CHR 0x1D, CHR 0x1E, CHR 0x85])"

text \<open>
  \<open>splitlines_acc after_cr cur s\<close>: \<open>cur\<close> is the line read so far, \<open>after_cr\<close> says that
  the previous character was a carriage return, so that a line feed right after it
  belongs to the same boundary. A last line without a boundary is kept when it is
  non-empty, so \<open>''''\<close> has no lines and \<open>''a\<newline>''\<close> has one.
\<close>

fun splitlines_acc :: "bool \<Rightarrow> string \<Rightarrow> string \<Rightarrow> string list" where
  "splitlines_acc after_cr cur [] = (if cur = [] then [] else [cur])"
| "splitlines_acc after_cr cur (c # s) =
     (if after_cr \<and> c = CHR 0x0A then splitlines_acc False cur s
      else if is_linebreak c then cur # splitlines_acc (c = CHR 0x0D) [] s
      else splitlines_acc False (cur @ [c]) s)"

definition splitlines :: "string \<Rightarrow> string list" where
  "splitlines s = splitlines_acc False [] s"

text \<open>\<open>django.utils.html.escape\<close>, which is \<open>html.escape\<close> with quotes escaped.\<close>

definition escape_char :: "char \<Rightarrow> string" where
  "escape_char c =
     (if c = CHR ''&'' then ''&amp;''
      else if c = CHR ''<'' then ''&lt;''
      else if c = CHR ''>'' then ''&gt;''
      else if c = CHR 0x22 then ''&quot;''
      else if c = CHR 0x27 then ''&#x27;''
      else [c])"

definition escape :: "string \<Rightarrow> string" where
  "escape s = concat (map escape_char s)"

text \<open>Truthiness of an optional string: \<open>None\<close> and \<open>''''\<close> are false.\<close>

definition truthy :: "string option \<Rightarrow> bool" where
  "truthy v = (case v of None \<Rightarrow> False | Some s \<Rightarrow> s \<noteq> [])"

text \<open>\<open>v or ''''\<close> for an optional string.\<close>

definition or_empty :: "string option \<Rightarrow> string" where
  "or_empty v = (case v of None \<Rightarrow> [] | Some s \<Rightarrow> s)"

section \<open>The environment: settings, the completion API, the sanitiser\<close>

text \<open>
  \<open>django.conf.settings\<close>: each attribute may be absent, and \<open>getattr\<close> supplies the
  default.
\<close>

record settings =
  LLM_API_KEY :: "string option"
  LLM_PROVIDER :: "string option"
  LLM_MODEL :: "string option"
  LLM_TOPIC_MODEL :: "string option"

definition getattr :: "string option \<Rightarrow> string \<Rightarrow> string" where
  "getattr v d = (case v of None \<Rightarrow> d | Some s \<Rightarrow> s)"

text \<open>The request that \<open>requests.post\<close> sends to the chat-completion endpoint.\<close>

record llm_request =
  req_url :: string
  req_authorization :: string
  req_model :: string
  req_system :: string
  req_user :: string
  req_max_tokens :: int
  req_temperature :: rat
  req_timeout :: nat

text \<open>
  What the call gives back. \<open>LlmFailed\<close> stands for every exception between
  \<open>requests.post\<close> and the extraction of the content (connection error, timeout,
  error status, undecodable or ill-shaped JSON). \<open>LlmContent c\<close> is the value of
  \<open>data.get("choices", [{}])[0].get("message", {}).get("content", "")\<close>, where a
  missing or null content is \<open>''''\<close>: both callers treat the two alike.
\<close>

datatype llm_reply = LlmFailed | LlmContent string

type_synonym llm = "llm_request \<Rightarrow> llm_reply"

text \<open>The effects a handler performs, in order.\<close>

datatype effect = DbFilter "int list" | DbGet int | LlmCall llm_request

text \<open>The requests sent to the completion API in a trace of effects.\<close>

fun llm_calls :: "effect list \<Rightarrow> llm_request list" where
  "llm_calls [] = []"
| "llm_calls (LlmCall r # es) = r # llm_calls es"
| "llm_calls (DbFilter ids # es) = llm_calls es"
| "llm_calls (DbGet i # es) = llm_calls es"

text \<open>
  \<open>bleach.clean(content, tags=ALLOWED_TAGS, attributes=ALLOWED_ATTRS, strip=True)\<close> is a
  library call; the sanitiser is a parameter \<open>clean\<close> of the model, already applied to
  the two allow-lists below.
\<close>

definition ALLOWED_TAGS :: "string list" where
  "ALLOWED_TAGS = [''div'', ''p'', ''br'', ''strong'', ''em'', ''ul'', ''ol'', ''li'', ''a'',
     ''code'', ''pre'', ''blockquote'', ''h1'', ''h2'', ''h3'', ''h4'', ''h5'', ''h6'', ''span'']"

definition ALLOWED_ATTRS :: "(string \<times> string list) list" where
  "ALLOWED_ATTRS = [(''a'', [''href'', ''title'', ''target'', ''rel'']),
     (''span'', [''class'']), (''div'', [''class''])]"

section \<open>ai.py: the recap generator\<close>

definition SEP :: string where
  "SEP = ''\<newline>\<newline>---\<newline>\<newline>''"

definition strip_code_fence :: "string \<Rightarrow> py_exception + string" where
  "strip_code_fence s0 =
     (let s = strip s0 in
      if startswith s ''```''
      then (case py_index (split1 CHR ''\<newline>'' s) 1 of
              Inl e \<Rightarrow> Inl e
            | Inr s1 \<Rightarrow>
                (case py_index (rsplit1 ''```'' s1) 0 of
                   Inl e \<Rightarrow> Inl e
                 | Inr s2 \<Rightarrow> Inr (strip s2)))
      else Inr (strip s))"

definition recap_labelled :: "string list \<Rightarrow> int list \<Rightarrow> string list" where
  "recap_labelled messages message_ids =
     take 200 (map (\<lambda>(mid, text). take 3000 text) (zip message_ids messages))"

definition recap_fallback :: "string list \<Rightarrow> string" where
  "recap_fallback labelled =
     ''<p><strong>Recap (fallback):</strong></p><pre>''
       @ escape (take 4000 (join SEP (take 10 labelled))) @ ''</pre>''"

definition recap_prompt_system :: string where
  "recap_prompt_system =
     ''You are a concise assistant.\<newline>''
     @ ''Return ONLY valid HTML.\<newline>''
     @ ''DO NOT use Markdown.\<newline>''
     @ ''DO NOT wrap output in ``` or ```html.\<newline>''
     @ ''DO NOT include message IDs like MSG 12.\<newline>''
     @ ''Use <p>, <ul>, <li>, <strong> only.\<newline>''"

definition recap_request :: "string \<Rightarrow> string \<Rightarrow> string list \<Rightarrow> int \<Rightarrow> llm_request" where
  "recap_request api_key model labelled max_tokens =
     \<lparr> req_url = ''https://api.openai.com/v1/chat/completions'',
       req_authorization = ''Bearer '' @ api_key,
       req_model = model,
       req_system = recap_prompt_system,
       req_user = ''Messages:\<newline>\<newline>'' @ join SEP labelled,
       req_max_tokens = max_tokens,
       req_temperature = 2 / 10,
       req_timeout = 20 \<rparr>"

text \<open>
  \<open>generate_message_recap\<close>. Inside the \<open>try\<close> are the provider check, the call and the
  extraction of the content; sanitising and \<open>strip_code_fence\<close> come after it, so an
  exception there leaves the function. The returned string is built from \<open>clean\<close>, the
  sanitised reply; the result of \<open>strip_code_fence\<close> is assigned to \<open>content\<close> and not
  read again.
\<close>

definition generate_message_recap ::
  "(string \<Rightarrow> string) \<Rightarrow> llm \<Rightarrow> settings \<Rightarrow> string list \<Rightarrow> int list \<Rightarrow> int
     \<Rightarrow> (py_exception + string) \<times> effect list" where
  "generate_message_recap clean llm st messages message_ids max_tokens =
     (if messages = [] then (Inr ''<p>(no messages)</p>'', [])
      else
        let api_key = LLM_API_KEY st;
            provider = getattr (LLM_PROVIDER st) ''openai'';
            model = getattr (LLM_MODEL st) ''gpt-4o-mini'';
            labelled = recap_labelled messages message_ids
        in if \<not> truthy api_key then (Inr (recap_fallback labelled), [])
           else if provider \<noteq> ''openai'' then (Inr (recap_fallback labelled), [])
           else
             let req = recap_request (or_empty api_key) model labelled max_tokens
             in (case llm req of
                   LlmFailed \<Rightarrow> (Inr (recap_fallback labelled), [LlmCall req])
                 | LlmContent content \<Rightarrow>
                     if content = [] then (Inr ''<p>(empty recap)</p>'', [LlmCall req])
                     else
                       let cleaned = clean content
                       in (case strip_code_fence content of
                             Inl e \<Rightarrow> (Inl e, [LlmCall req])
                           | Inr content' \<Rightarrow>
                               (Inr (''<div class='ai-recap'>'' @ cleaned @ ''</div>''),
                                [LlmCall req]))))"

section \<open>ai.py: the topic-title suggester\<close>

definition topic_prompt_system :: string where
  "topic_prompt_system =
     ''You generate short Zulip topic titles.\<newline>''
     @ ''Return ONLY the title text (no quotes, no markdown).\<newline>''
     @ ''Keep it <= 60 characters.\<newline>''
     @ ''Do NOT reuse boilerplate prefixes from the current topic (e.g., 'Changing focus to', 'Topic shift:', 'New topic:', 'Discussion:').\<newline>''
     @ ''Write the title as a neutral noun phrase describing the subject.\<newline>''
     @ ''If the current topic is still accurate, return an empty string.''"

text \<open>How an f-string prints an optional string.\<close>

definition format_opt :: "string option \<Rightarrow> string" where
  "format_opt v = (case v of None \<Rightarrow> ''None'' | Some s \<Rightarrow> s)"

text \<open>
  The user prompt. \<open>user_parts\<close> holds \<open>*messages\<close>, every message as it was passed in,
  and after it the joined \<open>labelled\<close> list, the truncated recent messages.
\<close>

definition topic_prompt_user :: "string list \<Rightarrow> string list \<Rightarrow> string option \<Rightarrow> string" where
  "topic_prompt_user messages labelled current_title =
     (let user_parts =
            [''Current topic: '' @ format_opt current_title, [], ''Recent messages:'']
            @ messages
            @ [[], ''Suggest a better topic title if the discussion focus has changed.''];
          user_parts =
            (if truthy current_title
             then user_parts @ [''Current title: '' @ or_empty current_title @ ''\<newline>'']
             else user_parts);
          user_parts = user_parts @ [''Recent messages:\<newline>''];
          user_parts = user_parts @ [join SEP labelled]
      in join ''\<newline>'' user_parts)"

definition topic_request :: "string \<Rightarrow> string \<Rightarrow> string \<Rightarrow> int \<Rightarrow> llm_request" where
  "topic_request api_key model prompt_user max_tokens =
     \<lparr> req_url = ''https://api.openai.com/v1/chat/completions'',
       req_authorization = ''Bearer '' @ api_key,
       req_model = model,
       req_system = topic_prompt_system,
       req_user = prompt_user,
       req_max_tokens = max_tokens,
       req_temperature = 0,
       req_timeout = 10 \<rparr>"

text \<open>\<open>text.split("\n", 1)[0].strip()[:60]\<close>; a split always has a first segment.\<close>

definition first_line60 :: "string \<Rightarrow> string" where
  "first_line60 text = take 60 (strip (hd (split1 CHR ''\<newline>'' text)))"

text \<open>\<open>candidate or (current_title or "")\<close>.\<close>

definition candidate_or_title :: "string \<Rightarrow> string option \<Rightarrow> string" where
  "candidate_or_title candidate current_title =
     (if candidate \<noteq> [] then candidate else or_empty current_title)"

text \<open>The \<open>except\<close> branch: the candidate comes from the last message as passed in.\<close>

definition topic_except :: "string list \<Rightarrow> string option \<Rightarrow> string" where
  "topic_except messages current_title =
     candidate_or_title (if messages \<noteq> [] then first_line60 (last messages) else [])
       current_title"

text \<open>
  \<open>suggest_topic_title\<close>. Everything after the configuration is read sits in one
  \<open>try\<close>; an unsupported provider, a failed call and the IndexError of
  \<open>splitlines()[0]\<close> on a blank reply all end in the \<open>except\<close> branch. Without an API
  key the candidate comes from \<open>labelled[-1]\<close>.
\<close>

definition suggest_topic_title ::
  "llm \<Rightarrow> settings \<Rightarrow> string list \<Rightarrow> string option \<Rightarrow> int
     \<Rightarrow> (py_exception + string) \<times> effect list" where
  "suggest_topic_title llm st messages current_title max_tokens =
     (if messages = [] then (Inr [], [])
      else
        let api_key = LLM_API_KEY st;
            provider = getattr (LLM_PROVIDER st) ''openai'';
            model = getattr (LLM_TOPIC_MODEL st) ''gpt-3.5-turbo'';
            recent = py_lastn 30 messages;
            labelled = map (take 800) recent;
            prompt_user = topic_prompt_user messages labelled current_title
        in if \<not> truthy api_key
           then (Inr (candidate_or_title (first_line60 (last labelled)) current_title), [])
           else if provider \<noteq> ''openai''
           then (Inr (topic_except messages current_title), [])
           else
             let req = topic_request (or_empty api_key) model prompt_user max_tokens
             in (case llm req of
                   LlmFailed \<Rightarrow> (Inr (topic_except messages current_title), [LlmCall req])
                 | LlmContent content \<Rightarrow>
                     (case py_index (splitlines (strip content)) 0 of
                        Inl e \<Rightarrow> (Inr (topic_except messages current_title), [LlmCall req])
                      | Inr line \<Rightarrow>
                          (Inr (strip (replace_char CHR ''\<newline>'' CHR '' '' (take 60 line))),
                           [LlmCall req]))))"

section \<open>Request data: form fields, integers, the message store\<close>

text \<open>
  \<open>request.POST\<close> is a QueryDict: every key has a list of values, the empty list when
  the key is absent. \<open>getlist\<close> reads the list, \<open>get\<close> the last value or the default.
\<close>

type_synonym querydict = "string \<Rightarrow> string list"

definition getlist :: "querydict \<Rightarrow> string \<Rightarrow> string list" where
  "getlist q k = q k"

definition post_get :: "querydict \<Rightarrow> string \<Rightarrow> string option \<Rightarrow> string option" where
  "post_get q k d = (if q k = [] then d else Some (last (q k)))"

text \<open>
  Python's \<open>int(s)\<close> on a string, as CPython parses it. Whitespace around the numeral
  is skipped: the ASCII whitespace \<open>\t \n \v \f \r\<close> and the space, and the non-ASCII
  Unicode spaces, which are U+0085 and U+00A0 below 256. The separators U+001C to
  U+001F, which \<open>str.strip()\<close> removes, are not skipped. One sign is allowed, and the
  rest is decimal digits with single underscores between digits. A numeral of more than
  \<open>INT_MAX_STR_DIGITS\<close> digits (the interpreter's default limit, 4300; leading zeros
  count, underscores and the sign do not) is rejected. \<open>None\<close> stands for ValueError.
\<close>

definition is_int_space :: "char \<Rightarrow> bool" where
  "is_int_space c = (c \<in> set [CHR 0x09, CHR 0x0A, CHR 0x0B, CHR 0x0C, CHR 0x0D, CHR 0x20,
                                CHR 0x85, CHR 0xA0])"

definition int_strip :: "string \<Rightarrow> string" where
  "int_strip s = rev (dropWhile is_int_space (rev (dropWhile is_int_space s)))"

definition INT_MAX_STR_DIGITS :: nat where
  "INT_MAX_STR_DIGITS = 4300"

definition is_digit :: "char \<Rightarrow> bool" where
  "is_digit c = (c \<in> set ''0123456789'')"

definition digit_val :: "char \<Rightarrow> int" where
  "digit_val c = int (of_char c) - 48"

text \<open>\<open>int_body prev s\<close>: \<open>prev\<close> says that the character before \<open>s\<close> was a digit.\<close>

fun int_body :: "bool \<Rightarrow> string \<Rightarrow> bool" where
  "int_body prev [] = prev"
| "int_body prev (c # s) =
     (if is_digit c then int_body True s
      else if c = CHR ''_'' \<and> prev then int_body False s
      else False)"

definition digits_value :: "string \<Rightarrow> int" where
  "digits_value ds = foldl (\<lambda>acc c. 10 * acc + digit_val c) 0 (filter is_digit ds)"

definition py_int :: "string \<Rightarrow> int option" where
  "py_int s0 =
     (let s = int_strip s0;
          neg = startswith s ''-'';
          body = (if startswith s ''-'' \<or> startswith s ''+'' then tl s else s)
      in if int_body False body \<and> length (filter is_digit body) \<le> INT_MAX_STR_DIGITS
         then Some (if neg then - digits_value body else digits_value body)
         else None)"

text \<open>\<open>str(n)\<close> for an integer.\<close>

function str_nat :: "nat \<Rightarrow> string" where
  "str_nat n =
     (if n < 10 then [char_of (48 + n)]
      else str_nat (n div 10) @ [char_of (48 + n mod 10)])"
  by pat_completeness auto
termination
  by (relation "measure id") auto

definition str_int :: "int \<Rightarrow> string" where
  "str_int i = (if i < 0 then ''-'' @ str_nat (nat (- i)) else str_nat (nat i))"

text \<open>
  The message table, read through \<open>Message.objects\<close>: an id has at most one row, and
  the row's content. Every reader takes \<open>m.content or ""\<close>, so a null content is \<open>''''\<close>
  here.
\<close>

type_synonym message_store = "int \<rightharpoonup> string"

text \<open>The rows of the listed ids in the caller's order; ids without a row are dropped.\<close>

definition ordered_rows :: "message_store \<Rightarrow> int list \<Rightarrow> (int \<times> string) list" where
  "ordered_rows db message_ids =
     concat (map (\<lambda>mid. case db mid of None \<Rightarrow> [] | Some c \<Rightarrow> [(mid, c)]) message_ids)"

section \<open>topic_improver.py: the topic-suggestion handler\<close>

definition parse_int :: "string option \<Rightarrow> string \<Rightarrow> py_exception + int option" where
  "parse_int v field =
     (case v of
        None \<Rightarrow> Inr None
      | Some s \<Rightarrow>
          if s = [] then Inr None
          else (case py_int s of
                  Some n \<Rightarrow> Inr (Some n)
                | None \<Rightarrow> Inl (JsonableError (field @ '' is not an integer''))))"

text \<open>The loop of \<open>_parse_int_list_from_post\<close>: \<open>out\<close> is the list built so far.\<close>

fun parse_items :: "string \<Rightarrow> int list \<Rightarrow> string list \<Rightarrow> py_exception + int list" where
  "parse_items key out [] = Inr out"
| "parse_items key out (item # raw_list) =
     (if item = [] then parse_items key out raw_list
      else (case py_int item of
              Some n \<Rightarrow> parse_items key (out @ [n]) raw_list
            | None \<Rightarrow> Inl (JsonableError (key @ '' contains non-integer value''))))"

definition raw_list_from_post :: "querydict \<Rightarrow> string \<Rightarrow> string list" where
  "raw_list_from_post q key =
     (let raw_list = getlist q (key @ ''[]'')
      in if raw_list = [] then getlist q key else raw_list)"

definition parse_int_list_from_post :: "querydict \<Rightarrow> string \<Rightarrow> py_exception + int list" where
  "parse_int_list_from_post q key = parse_items key [] (raw_list_from_post q key)"

text \<open>\<open>str.lower()\<close> below 256: the ASCII capitals and the Latin-1 capitals.\<close>

definition lower_char :: "char \<Rightarrow> char" where
  "lower_char c =
     (let n = (of_char c :: nat)
      in if (65 \<le> n \<and> n \<le> 90) \<or> (192 \<le> n \<and> n \<le> 222 \<and> n \<noteq> 215)
         then char_of (n + 32) else c)"

definition lower :: "string \<Rightarrow> string" where
  "lower s = map lower_char s"

text \<open>
  The class \<open>\w\<close> of a \<open>str\<close> pattern below 256: the characters for which \<open>isalnum()\<close>
  holds (digits, ASCII letters, and the Latin-1 letters and numeric characters) and the
  underscore.
\<close>

definition is_word :: "char \<Rightarrow> bool" where
  "is_word c =
     (let n = (of_char c :: nat)
      in (48 \<le> n \<and> n \<le> 57) \<or> (65 \<le> n \<and> n \<le> 90) \<or> (97 \<le> n \<and> n \<le> 122) \<or> n = 95
         \<or> n = 170 \<or> n = 178 \<or> n = 179 \<or> n = 181 \<or> n = 185 \<or> n = 186
         \<or> (188 \<le> n \<and> n \<le> 190) \<or> (192 \<le> n \<and> n \<le> 214) \<or> (216 \<le> n \<and> n \<le> 246)
         \<or> 248 \<le> n)"

text \<open>The maximal runs of word characters of a string, left to right.\<close>

fun word_runs :: "string \<Rightarrow> string \<Rightarrow> string list" where
  "word_runs cur [] = (if cur = [] then [] else [cur])"
| "word_runs cur (c # s) =
     (if is_word c then word_runs (cur @ [c]) s
      else (if cur = [] then [] else [cur]) @ word_runs [] s)"

text \<open>
  \<open>set(re.findall(r"\w{3,}", s))\<close>: the quantifier is greedy, so the matches are the
  maximal runs of at least three word characters. The set is kept as a list without
  duplicates; the handler only asks whether it is empty and whether some member occurs
  in a text.
\<close>

definition findall_w3 :: "string \<Rightarrow> string list" where
  "findall_w3 s = remdups (filter (\<lambda>w. 3 \<le> length w) (word_runs [] s))"

text \<open>
  For comparison with the code, the tokens as the specification words them: the runs of
  at least three alphanumeric characters, that is, word characters other than the
  underscore.
\<close>

definition is_alnum :: "char \<Rightarrow> bool" where
  "is_alnum c = (is_word c \<and> c \<noteq> CHR ''_'')"

fun alnum_runs :: "string \<Rightarrow> string \<Rightarrow> string list" where
  "alnum_runs cur [] = (if cur = [] then [] else [cur])"
| "alnum_runs cur (c # s) =
     (if is_alnum c then alnum_runs (cur @ [c]) s
      else (if cur = [] then [] else [cur]) @ alnum_runs [] s)"

definition spec_alnum_tokens :: "string \<Rightarrow> string list" where
  "spec_alnum_tokens s = remdups (filter (\<lambda>w. 3 \<le> length w) (alnum_runs [] s))"

text \<open>\<open>w in t\<close> for strings: \<open>w\<close> occurs in \<open>t\<close> as a contiguous substring.\<close>

fun contains :: "string \<Rightarrow> string \<Rightarrow> bool" where
  "contains [] w = (w = [])"
| "contains (c # t) w = (startswith (c # t) w \<or> contains t w)"

record topic_response =
  suggested_title :: string
  anchor_id :: int

definition MIN_MSGS :: nat where
  "MIN_MSGS = 2"

definition MIN_AVG_LEN :: rat where
  "MIN_AVG_LEN = 20"

definition TITLE_MATCH_RATIO :: rat where
  "TITLE_MATCH_RATIO = 6 / 10"

text \<open>\<open>anchor_id = message_id if message_id is not None else message_ids[-1]\<close>.\<close>

definition resolve_anchor :: "int option \<Rightarrow> int list \<Rightarrow> int" where
  "resolve_anchor message_id message_ids =
     (case message_id of Some m \<Rightarrow> m | None \<Rightarrow> last message_ids)"

text \<open>
  The text resolution: with \<open>message_ids\<close>, the count limit and then one query; with
  only \<open>message_id\<close>, the lookup of the anchor message.
\<close>

definition resolve_texts ::
  "message_store \<Rightarrow> int list \<Rightarrow> int \<Rightarrow> (py_exception + string list) \<times> effect list" where
  "resolve_texts db message_ids anchor =
     (if message_ids \<noteq> []
      then if length message_ids > 50
           then (Inl (JsonableError ''Too many messages requested (max 50)''), [])
           else (Inr (filter (\<lambda>t. t \<noteq> [])
                        (map (\<lambda>(mid, c). strip c) (ordered_rows db message_ids))),
                 [DbFilter message_ids])
      else (case db anchor of
              None \<Rightarrow> (Inl (JsonableError ''anchor message not found''), [DbGet anchor])
            | Some c \<Rightarrow> (Inr (if strip c \<noteq> [] then [strip c] else []), [DbGet anchor])))"

text \<open>
  The two quotients of the gate are float divisions of small integers in the source;
  the model divides exactly, which gives the same comparisons for every list a request
  can resolve (at most 50 texts).
\<close>

definition avg_len :: "string list \<Rightarrow> rat" where
  "avg_len texts = of_nat (sum_list (map length texts)) / of_nat (length texts)"

definition title_matches :: "string list \<Rightarrow> string list \<Rightarrow> nat" where
  "title_matches title_words texts =
     length (filter (\<lambda>t. list_ex (\<lambda>w. contains (lower t) w) title_words) texts)"

definition no_suggestion :: "int \<Rightarrow> topic_response" where
  "no_suggestion anchor = \<lparr> suggested_title = [], anchor_id = anchor \<rparr>"

definition suggest_topic_title_backend ::
  "llm \<Rightarrow> settings \<Rightarrow> message_store \<Rightarrow> querydict
     \<Rightarrow> (py_exception + topic_response) \<times> effect list" where
  "suggest_topic_title_backend llm st db q =
     (let current_title = or_empty (post_get q ''current_title'' (Some []))
      in case parse_int (post_get q ''message_id'' None) ''message_id'' of
           Inl e \<Rightarrow> (Inl e, [])
         | Inr message_id \<Rightarrow>
         (case parse_int_list_from_post q ''message_ids'' of
            Inl e \<Rightarrow> (Inl e, [])
          | Inr message_ids \<Rightarrow>
              if message_id = None \<and> message_ids = []
              then (Inl (JsonableError ''message_id or message_ids is required''), [])
              else
                let anchor = resolve_anchor message_id message_ids
                in (case resolve_texts db message_ids anchor of
                      (Inl e, tr) \<Rightarrow> (Inl e, tr)
                    | (Inr texts, tr) \<Rightarrow>
                        if length texts < MIN_MSGS then (Inr (no_suggestion anchor), tr)
                        else if avg_len texts < MIN_AVG_LEN
                        then (Inr (no_suggestion anchor), tr)
                        else
                          let title_words = findall_w3 (lower current_title)
                          in if title_words \<noteq> []
                                \<and> of_nat (title_matches title_words texts)
                                    / of_nat (length texts) > TITLE_MATCH_RATIO
                             then (Inr (no_suggestion anchor), tr)
                             else
                               (case suggest_topic_title llm st texts (Some current_title) 40 of
                                  (r, tr') \<Rightarrow>
                                    let suggested = (case r of Inl e \<Rightarrow> [] | Inr s \<Rightarrow> s)
                                    in (Inr \<lparr> suggested_title = strip suggested,
                                              anchor_id = anchor \<rparr>,
                                        tr @ tr')))))"

section \<open>message_recap.py: the recap handler\<close>

text \<open>
  The request body as the handler sees it through \<open>json.loads\<close>: empty; not decodable
  (an exception inside the handler's \<open>try\<close>); decodable but without a list under
  \<open>message_ids\<close>; or an object with such a list, given by \<open>str(x)\<close> of each item.
\<close>

datatype request_body = BodyEmpty | BodyUndecodable | BodyOther | BodyIds "string list"

record http_request =
  POST :: querydict
  body :: request_body

record message_ref =
  ref_message_id :: int
  ref_anchor :: string
  ref_snippet :: string

record recap_response =
  recap_html :: string
  message_refs :: "message_ref list"

text \<open>
  The module imports \<open>logging\<close> but binds no \<open>logger\<close>, so both \<open>except\<close> branches, which
  start with \<open>logger.exception\<close>, leave the handler with a NameError.
\<close>

text \<open>Lines 16 to 26: the raw ids from the form, else from the JSON body.\<close>

definition recap_raw_ids :: "http_request \<Rightarrow> py_exception + string list" where
  "recap_raw_ids request =
     (let raw_ids = getlist (POST request) ''message_ids''
      in if raw_ids = []
         then (case body request of
                 BodyEmpty \<Rightarrow> Inr raw_ids
               | BodyUndecodable \<Rightarrow> Inl NameError
               | BodyOther \<Rightarrow> Inr raw_ids
               | BodyIds xs \<Rightarrow> Inr xs)
         else Inr raw_ids)"

text \<open>\<open>[int(mid) for mid in raw_ids]\<close>: \<open>None\<close> when some item raises ValueError.\<close>

definition ints_of :: "string list \<Rightarrow> int list option" where
  "ints_of raw_ids = those (map py_int raw_ids)"

definition make_ref :: "int \<times> string \<Rightarrow> message_ref" where
  "make_ref m =
     \<lparr> ref_message_id = fst m,
       ref_anchor = ''/#narrow/near/'' @ str_int (fst m),
       ref_snippet = replace_char CHR ''\<newline>'' CHR '' '' (take 300 (snd m)) \<rparr>"

definition message_recap ::
  "(string \<Rightarrow> string) \<Rightarrow> llm \<Rightarrow> settings \<Rightarrow> message_store \<Rightarrow> http_request
     \<Rightarrow> (py_exception + recap_response) \<times> effect list" where
  "message_recap clean llm st db request =
     (case recap_raw_ids request of
        Inl e \<Rightarrow> (Inl e, [])
      | Inr raw_ids \<Rightarrow>
          if raw_ids = [] then (Inl (JsonableError ''message_ids is required''), [])
          else (case ints_of raw_ids of
                  None \<Rightarrow> (Inl (JsonableError ''message_ids must be integers''), [])
                | Some message_ids \<Rightarrow>
                    if length message_ids > 200
                    then (Inl (JsonableError ''Too many messages requested (max 200)''), [])
                    else
                      let ordered_msgs = ordered_rows db message_ids;
                          texts = map snd ordered_msgs;
                          ordered_ids = map fst ordered_msgs
                      in (case generate_message_recap clean llm st texts ordered_ids 800 of
                            (Inl e, tr) \<Rightarrow> (Inl NameError, DbFilter message_ids # tr)
                          | (Inr html, tr) \<Rightarrow>
                              (Inr \<lparr> recap_html = html,
                                      message_refs = map make_ref ordered_msgs \<rparr>,
                               DbFilter message_ids # tr))))"

section \<open>Example environments\<close>

text \<open>A form with the listed fields and no others.\<close>

definition form :: "(string \<times> string list) list \<Rightarrow> querydict" where
  "form kvs k = (case map_of kvs k of None \<Rightarrow> [] | Some vs \<Rightarrow> vs)"

text \<open>A store with two messages long enough to pass the length gate.\<close>

definition two_messages :: message_store where
  "two_messages =
     map_of [(1, ''The deploy script fails on staging''),
             (2, ''<b>Rollback</b> plan for the release'')]"

text \<open>A store with two messages that mention a migration.\<close>

definition migration_messages :: message_store where
  "migration_messages =
     map_of [(1, ''The migration script fails on staging''),
             (2, ''Rollback plan for the migration'')]"

text \<open>A store with two messages too short for the length gate.\<close>

definition short_messages :: message_store where
  "short_messages = map_of [(1, ''ok''), (2, ''fine then'')]"

text \<open>A completion API that answers every request with the same reply.\<close>

definition llm_always :: "llm_reply \<Rightarrow> llm" where
  "llm_always r req = r"

text \<open>Settings with an API key and every other attribute absent, and settings with none.\<close>

definition settings_with_key :: settings where
  "settings_with_key =
     \<lparr> LLM_API_KEY = Some ''sk-test'', LLM_PROVIDER = None, LLM_MODEL = None,
       LLM_TOPIC_MODEL = None \<rparr>"

definition settings_no_key :: settings where
  "settings_no_key =
     \<lparr> LLM_API_KEY = None, LLM_PROVIDER = None, LLM_MODEL = None, LLM_TOPIC_MODEL = None \<rparr>"

section \<open>Properties of the recap generator\<close>

lemmas env_defs = settings_with_key_def settings_no_key_def llm_always_def
  truthy_def getattr_def or_empty_def

lemmas str_defs = strip_def lstrip_def rstrip_def isspace_def startswith_def split1_def
  rsplit1_def rfind_def py_index_def

lemma strip_code_fence_fenced:
  "strip_code_fence ''```html\<newline><p>Hi</p>\<newline>```'' = Inr ''<p>Hi</p>''"
  by (simp add: strip_code_fence_def str_defs)

text \<open>
  C1. The claim: the reply is fence-stripped first, the stripped text is sanitised, and
  the sanitised text is returned in the container, so that no fence reaches the caller.
  The code sanitises the reply as it came and returns that: for the reply
  \<open>```html\n<p>Hi</p>\n```\<close> the returned HTML is the container around the sanitiser's
  output on the whole fenced reply, whatever the sanitiser is, although
  \<open>strip_code_fence\<close> yields \<open><p>Hi</p>\<close> on it. The container's attribute is written
  with single quotes.
\<close>

theorem recap_sanitises_unstripped_reply:
  "fst (generate_message_recap clean
          (llm_always (LlmContent ''```html\<newline><p>Hi</p>\<newline>```''))
          settings_with_key [''hello''] [1] 800)
     = Inr (''<div class='ai-recap'>'' @ clean ''```html\<newline><p>Hi</p>\<newline>```'' @ ''</div>'')
   \<and> strip_code_fence ''```html\<newline><p>Hi</p>\<newline>```'' = Inr ''<p>Hi</p>''"
  by (simp add: generate_message_recap_def env_defs recap_labelled_def
        strip_code_fence_fenced)

text \<open>
  C4. The claim: for every reply, also one that is only \<open>```\<close>, the recap generator
  returns non-empty HTML and does not raise. On the reply \<open>```\<close> the fence stripper
  takes the second segment of a split that has one segment; the IndexError is outside
  the \<open>try\<close> and leaves \<open>generate_message_recap\<close>.
\<close>

theorem recap_raises_on_bare_fence:
  "fst (generate_message_recap clean (llm_always (LlmContent ''```''))
          settings_with_key [''hello''] [1] 800)
     = Inl IndexError"
  by (simp add: generate_message_recap_def env_defs recap_labelled_def
        strip_code_fence_def str_defs)

lemma map_zip_take:
  "map (\<lambda>(a, b). f b) (zip xs ys) = map f (take (length xs) ys)"
proof (induction xs arbitrary: ys)
  case Nil
  show ?case by simp
next
  case (Cons x xs)
  show ?case
  proof (cases ys)
    case Nil
    then show ?thesis by simp
  next
    case (Cons y ys')
    with Cons.IH [of ys'] show ?thesis by simp
  qed
qed

lemma take_min_length: "take n ys = take (min n (length ys)) ys"
  by (simp add: min_def)

lemma recap_labelled_covered:
  assumes "min (length ids1) (length messages) = min (length ids2) (length messages)"
  shows "recap_labelled messages ids1 = recap_labelled messages ids2"
proof -
  have "take (length ids1) messages = take (length ids2) messages"
    using assms take_min_length [of "length ids1" messages]
      take_min_length [of "length ids2" messages]
    by simp
  then show ?thesis
    by (simp add: recap_labelled_def map_zip_take)
qed

text \<open>
  C5. The ids are a list parallel to the texts, one id for each text, as the handler
  passes them. For fixed texts, sanitiser, completion API and settings, any two such id
  lists give the same result and the same request: the ids are paired with the texts
  and never read.
\<close>

theorem recap_independent_of_message_ids:
  assumes "length ids1 = length messages" and "length ids2 = length messages"
  shows "generate_message_recap clean llm st messages ids1 max_tokens
           = generate_message_recap clean llm st messages ids2 max_tokens"
proof -
  from assms have "min (length ids1) (length messages) = min (length ids2) (length messages)"
    by simp
  from recap_labelled_covered [OF this] show ?thesis
    by (simp add: generate_message_recap_def)
qed

theorem recap_independent_of_message_ids_witness:
  "length [1, 2 :: int] = length [''first'', ''second'']
   \<and> length [70, 80 :: int] = length [''first'', ''second'']
   \<and> generate_message_recap id (llm_always LlmFailed) settings_no_key
         [''first'', ''second''] [1, 2] 800
     = generate_message_recap id (llm_always LlmFailed) settings_no_key
         [''first'', ''second''] [70, 80] 800"
  using recap_independent_of_message_ids [of "[1, 2]" "[''first'', ''second'']" "[70, 80]" id "llm_always LlmFailed"
       settings_no_key 800]
  by simp

section \<open>Properties of the topic-title suggester\<close>

text \<open>
  C2. The claim: the user prompt holds at most 800 characters of any message and no
  message older than the last 30. The prompt lists every message as passed in before
  the truncated recent ones: a message of 801 characters is in the request in full,
  followed by its first 800 characters, and the oldest of 31 messages is in the request
  although the recent list leaves it out.
\<close>

theorem topic_prompt_lists_whole_messages:
  "map req_user (llm_calls (snd (suggest_topic_title (llm_always LlmFailed) settings_with_key
       [replicate 801 CHR ''a''] None 64)))
     = [''Current topic: None\<newline>\<newline>Recent messages:\<newline>'' @ replicate 801 CHR ''a''
        @ ''\<newline>\<newline>Suggest a better topic title if the discussion focus has changed.\<newline>Recent messages:\<newline>\<newline>''
        @ replicate 800 CHR ''a'']
   \<and> map req_user (llm_calls (snd (suggest_topic_title (llm_always LlmFailed) settings_with_key
       (''oldest'' # replicate 30 ''x'') None 64)))
     = [''Current topic: None\<newline>\<newline>Recent messages:\<newline>oldest\<newline>''
        @ join ''\<newline>'' (replicate 30 ''x'')
        @ ''\<newline>\<newline>Suggest a better topic title if the discussion focus has changed.\<newline>Recent messages:\<newline>\<newline>''
        @ join SEP (replicate 30 ''x'')]"
proof
  show "map req_user (llm_calls (snd (suggest_topic_title (llm_always LlmFailed)
          settings_with_key [replicate 801 CHR ''a''] None 64)))
     = [''Current topic: None\<newline>\<newline>Recent messages:\<newline>'' @ replicate 801 CHR ''a''
        @ ''\<newline>\<newline>Suggest a better topic title if the discussion focus has changed.\<newline>Recent messages:\<newline>\<newline>''
        @ replicate 800 CHR ''a'']"
    by (simp add: suggest_topic_title_def env_defs py_lastn_def topic_request_def
          topic_prompt_user_def format_opt_def)
next
  show "map req_user (llm_calls (snd (suggest_topic_title (llm_always LlmFailed)
          settings_with_key (''oldest'' # replicate 30 ''x'') None 64)))
     = [''Current topic: None\<newline>\<newline>Recent messages:\<newline>oldest\<newline>''
        @ join ''\<newline>'' (replicate 30 ''x'')
        @ ''\<newline>\<newline>Suggest a better topic title if the discussion focus has changed.\<newline>Recent messages:\<newline>\<newline>''
        @ join SEP (replicate 30 ''x'')]"
    by code_simp
qed

text \<open>
  C3. The claim: the returned title has at most 60 characters, no newline and no HTML
  on every path, the fallbacks included. When the last message has a blank first line,
  both fallbacks return the current title as it is, here 70 characters with a tag and a
  newline; a reply \<open><b>New</b>\<close> of the completion API is returned with its tags; and
  through the handler, without an API key, the first line of the last message is the
  suggestion, tags included.
\<close>

theorem topic_title_returned_unchecked:
  "fst (suggest_topic_title (llm_always LlmFailed) settings_no_key [[]]
          (Some (''<b>a\<newline>b</b>'' @ replicate 60 CHR ''x'')) 64)
     = Inr (''<b>a\<newline>b</b>'' @ replicate 60 CHR ''x'')
   \<and> length (''<b>a\<newline>b</b>'' @ replicate 60 CHR ''x'') = 70
   \<and> fst (suggest_topic_title (llm_always LlmFailed) settings_with_key [[]]
          (Some (''<b>a\<newline>b</b>'' @ replicate 60 CHR ''x'')) 64)
     = Inr (''<b>a\<newline>b</b>'' @ replicate 60 CHR ''x'')
   \<and> fst (suggest_topic_title (llm_always (LlmContent ''<b>New</b>'')) settings_with_key
          [''abc''] None 64)
     = Inr ''<b>New</b>''
   \<and> fst (suggest_topic_title_backend (llm_always LlmFailed) settings_no_key two_messages
          (form [(''message_ids'', [''1'', ''2''])]))
     = Inr \<lparr> suggested_title = ''<b>Rollback</b> plan for the release'', anchor_id = 2 \<rparr>"
  by code_simp

section \<open>Properties of the topic-suggestion handler\<close>

lemma resolve_texts_no_llm:
  "resolve_texts db message_ids anchor = (r, tr) \<Longrightarrow> llm_calls tr = []"
  by (auto simp: resolve_texts_def split: if_splits option.splits)

text \<open>
  C6. A request that passes validation and resolves to fewer than two non-empty texts,
  or to texts whose average length is below 20 characters, gets an empty
  \<open>suggested_title\<close> with the resolved \<open>anchor_id\<close>; the trace of the handler is the
  trace of the lookup and holds no call of the completion API.
\<close>

theorem gate_few_or_short_texts:
  assumes "parse_int (post_get q ''message_id'' None) ''message_id'' = Inr message_id"
    and "parse_int_list_from_post q ''message_ids'' = Inr message_ids"
    and "message_id \<noteq> None \<or> message_ids \<noteq> []"
    and "resolve_texts db message_ids (resolve_anchor message_id message_ids) = (Inr texts, tr)"
    and "length texts < 2 \<or> avg_len texts < 20"
  shows "suggest_topic_title_backend llm st db q
           = (Inr \<lparr> suggested_title = [], anchor_id = resolve_anchor message_id message_ids \<rparr>, tr)
         \<and> llm_calls tr = []"
proof
  show "llm_calls tr = []"
    using assms(4) by (rule resolve_texts_no_llm)
  from assms(3) have valid: "\<not> (message_id = None \<and> message_ids = [])" by simp
  show "suggest_topic_title_backend llm st db q
           = (Inr \<lparr> suggested_title = [], anchor_id = resolve_anchor message_id message_ids \<rparr>, tr)"
    using assms(5) valid
    by (auto simp: suggest_topic_title_backend_def assms(1,2,4) no_suggestion_def MIN_MSGS_def MIN_AVG_LEN_def Let_def)
qed

theorem gate_few_or_short_texts_witness:
  "parse_int (post_get (form [(''message_ids'', [''1'', ''2''])]) ''message_id'' None) ''message_id'' = Inr None
   \<and> parse_int_list_from_post (form [(''message_ids'', [''1'', ''2''])]) ''message_ids'' = Inr [1, 2]
   \<and> resolve_texts short_messages [1, 2] (resolve_anchor None [1, 2])
        = (Inr [''ok'', ''fine then''], [DbFilter [1, 2]])
   \<and> avg_len [''ok'', ''fine then''] < 20
   \<and> suggest_topic_title_backend (llm_always (LlmContent ''New title'')) settings_with_key
        short_messages (form [(''message_ids'', [''1'', ''2''])])
        = (Inr \<lparr> suggested_title = [], anchor_id = 2 \<rparr>, [DbFilter [1, 2]])
   \<and> llm_calls [DbFilter [1, 2]] = []"
proof -
  let ?q = "form [(''message_ids'', [''1'', ''2''])]"
  have h1: "parse_int (post_get ?q ''message_id'' None) ''message_id'' = Inr None"
    by code_simp
  have h2: "parse_int_list_from_post ?q ''message_ids'' = Inr [1, 2]"
    by code_simp
  have h3: "(None :: int option) \<noteq> None \<or> [1, 2 :: int] \<noteq> []"
    by simp
  have h4: "resolve_texts short_messages [1, 2] (resolve_anchor None [1, 2])
        = (Inr [''ok'', ''fine then''], [DbFilter [1, 2]])"
    by code_simp
  have h5: "avg_len [''ok'', ''fine then''] < 20"
    by (simp add: avg_len_def)
  have h5': "length [''ok'', ''fine then''] < 2 \<or> avg_len [''ok'', ''fine then''] < 20"
    using h5 by simp
  have a: "resolve_anchor None [1, 2] = 2"
    by (simp add: resolve_anchor_def)
  show ?thesis
    using gate_few_or_short_texts [OF h1 h2 h3 h4 h5', of "llm_always (LlmContent ''New title'')" settings_with_key]
      h1 h2 h4 h5 a
    by simp
qed

text \<open>
  C7. The claim: the tokens are the alphanumeric runs of at least three characters of
  the lower-cased title. The code takes the matches of \<open>\w{3,}\<close>, and \<open>\w\<close> has the
  underscore: for the title \<open>db_migration\<close> the alphanumeric token \<open>migration\<close> is in
  both texts, which is more than 0.6 of them, but the code's only token is
  \<open>db_migration\<close>, which is in neither, so the gate does not close and the completion
  API is called.
\<close>

theorem underscore_title_not_gated:
  "spec_alnum_tokens (lower ''db_migration'') = [''migration'']
   \<and> title_matches [''migration'']
        [''The migration script fails on staging'', ''Rollback plan for the migration''] = 2
   \<and> findall_w3 (lower ''db_migration'') = [''db_migration'']
   \<and> title_matches [''db_migration'']
        [''The migration script fails on staging'', ''Rollback plan for the migration''] = 0
   \<and> fst (suggest_topic_title_backend (llm_always (LlmContent ''New title'')) settings_with_key
          migration_messages
          (form [(''message_ids'', [''1'', ''2'']), (''current_title'', [''db_migration''])]))
     = Inr \<lparr> suggested_title = ''New title'', anchor_id = 2 \<rparr>
   \<and> map req_model (llm_calls (snd (suggest_topic_title_backend
          (llm_always (LlmContent ''New title'')) settings_with_key migration_messages
          (form [(''message_ids'', [''1'', ''2'']), (''current_title'', [''db_migration''])]))))
     = [''gpt-3.5-turbo'']"
  by code_simp

text \<open>
  C7, amended. A request that passes the count gate and the average-length gate: the
  tokens are the matches of \<open>\w{3,}\<close> in the lower-cased current title, the runs of at
  least three word characters (letters, digits and the underscore). If there is one and
  more than 0.6 of the texts contain some token in their lower-cased form, the handler
  returns an empty \<open>suggested_title\<close> with the \<open>anchor_id\<close> and calls no completion API.
\<close>

theorem gate_title_still_matches:
  assumes "parse_int (post_get q ''message_id'' None) ''message_id'' = Inr message_id"
    and "parse_int_list_from_post q ''message_ids'' = Inr message_ids"
    and "message_id \<noteq> None \<or> message_ids \<noteq> []"
    and "resolve_texts db message_ids (resolve_anchor message_id message_ids) = (Inr texts, tr)"
    and "2 \<le> length texts" and "20 \<le> avg_len texts"
    and "title_words = findall_w3 (lower (or_empty (post_get q ''current_title'' (Some []))))"
    and "title_words \<noteq> []"
    and "of_nat (title_matches title_words texts) / of_nat (length texts) > (6 / 10 :: rat)"
  shows "suggest_topic_title_backend llm st db q
           = (Inr \<lparr> suggested_title = [], anchor_id = resolve_anchor message_id message_ids \<rparr>, tr)
         \<and> llm_calls tr = []"
proof
  show "llm_calls tr = []"
    using assms(4) by (rule resolve_texts_no_llm)
  from assms(3) have valid: "\<not> (message_id = None \<and> message_ids = [])" by simp
  show "suggest_topic_title_backend llm st db q
           = (Inr \<lparr> suggested_title = [], anchor_id = resolve_anchor message_id message_ids \<rparr>, tr)"
    using assms(5,6,8,9) valid
    by (auto simp: suggest_topic_title_backend_def assms(1,2,4) assms(7)[symmetric] no_suggestion_def MIN_MSGS_def MIN_AVG_LEN_def
          TITLE_MATCH_RATIO_def Let_def)
qed

theorem gate_title_still_matches_witness:
  "parse_int (post_get (form [(''message_ids'', [''1'', ''2'']), (''current_title'', [''Release deploy''])])
       ''message_id'' None) ''message_id'' = Inr None
   \<and> parse_int_list_from_post (form [(''message_ids'', [''1'', ''2'']), (''current_title'', [''Release deploy''])])
       ''message_ids'' = Inr [1, 2]
   \<and> resolve_texts two_messages [1, 2] (resolve_anchor None [1, 2])
        = (Inr [''The deploy script fails on staging'', ''<b>Rollback</b> plan for the release''],
           [DbFilter [1, 2]])
   \<and> 20 \<le> avg_len [''The deploy script fails on staging'', ''<b>Rollback</b> plan for the release'']
   \<and> findall_w3 (lower (or_empty (post_get
         (form [(''message_ids'', [''1'', ''2'']), (''current_title'', [''Release deploy''])])
         ''current_title'' (Some [])))) = [''release'', ''deploy'']
   \<and> title_matches [''release'', ''deploy'']
        [''The deploy script fails on staging'', ''<b>Rollback</b> plan for the release''] = 2
   \<and> suggest_topic_title_backend (llm_always (LlmContent ''New title'')) settings_with_key
        two_messages
        (form [(''message_ids'', [''1'', ''2'']), (''current_title'', [''Release deploy''])])
        = (Inr \<lparr> suggested_title = [], anchor_id = 2 \<rparr>, [DbFilter [1, 2]])"
proof -
  let ?q = "form [(''message_ids'', [''1'', ''2'']), (''current_title'', [''Release deploy''])]"
  let ?texts = "[''The deploy script fails on staging'', ''<b>Rollback</b> plan for the release'']"
  have h1: "parse_int (post_get ?q ''message_id'' None) ''message_id'' = Inr None"
    by code_simp
  have h2: "parse_int_list_from_post ?q ''message_ids'' = Inr [1, 2]"
    by code_simp
  have h3: "(None :: int option) \<noteq> None \<or> [1, 2 :: int] \<noteq> []"
    by simp
  have h4: "resolve_texts two_messages [1, 2] (resolve_anchor None [1, 2])
        = (Inr ?texts, [DbFilter [1, 2]])"
    by code_simp
  have h5: "2 \<le> length ?texts"
    by simp
  have h6: "20 \<le> avg_len ?texts"
    by (simp add: avg_len_def)
  have h7: "[''release'', ''deploy'']
      = findall_w3 (lower (or_empty (post_get ?q ''current_title'' (Some []))))"
    by code_simp
  have h8: "[''release'', ''deploy''] \<noteq> []"
    by simp
  have m: "title_matches [''release'', ''deploy''] ?texts = 2"
    by code_simp
  have h9: "of_nat (title_matches [''release'', ''deploy''] ?texts) / of_nat (length ?texts)
              > (6 / 10 :: rat)"
    by (simp add: m)
  have a: "resolve_anchor None [1, 2] = 2"
    by (simp add: resolve_anchor_def)
  show ?thesis
    using gate_title_still_matches [OF h1 h2 h3 h4 h5 h6 h7 h8 h9, of "llm_always (LlmContent ''New title'')"
        settings_with_key]
      h1 h2 h4 h6 h7 [symmetric] m a
    by simp
qed

text \<open>
  C8. Whenever the handler returns a response, whatever the gates decided and whatever
  the completion API did, its \<open>anchor_id\<close> is the parsed \<open>message_id\<close> when there is
  one and otherwise the last of the parsed \<open>message_ids\<close>, of which there is then at
  least one.
\<close>

theorem anchor_id_of_response:
  assumes "parse_int (post_get q ''message_id'' None) ''message_id'' = Inr message_id"
    and "parse_int_list_from_post q ''message_ids'' = Inr message_ids"
    and "suggest_topic_title_backend llm st db q = (Inr response, tr)"
  shows "anchor_id response = (case message_id of Some m \<Rightarrow> m | None \<Rightarrow> last message_ids)
         \<and> (message_id \<noteq> None \<or> message_ids \<noteq> [])"
  using assms(3)
  by (auto simp: suggest_topic_title_backend_def assms(1,2) no_suggestion_def resolve_anchor_def Let_def
        split: if_splits prod.splits sum.splits option.splits)

theorem anchor_id_of_response_witness:
  "parse_int (post_get (form [(''message_id'', [''1'']), (''message_ids'', [''1'', ''2''])])
       ''message_id'' None) ''message_id'' = Inr (Some 1)
   \<and> parse_int_list_from_post (form [(''message_id'', [''1'']), (''message_ids'', [''1'', ''2''])])
       ''message_ids'' = Inr [1, 2]
   \<and> fst (suggest_topic_title_backend (llm_always (LlmContent ''Staging deploy failure''))
        settings_with_key two_messages
        (form [(''message_id'', [''1'']), (''message_ids'', [''1'', ''2''])]))
        = Inr \<lparr> suggested_title = ''Staging deploy failure'', anchor_id = 1 \<rparr>
   \<and> anchor_id \<lparr> suggested_title = ''Staging deploy failure'', anchor_id = 1 \<rparr> = 1"
proof -
  let ?q = "form [(''message_id'', [''1'']), (''message_ids'', [''1'', ''2''])]"
  let ?run = "suggest_topic_title_backend (llm_always (LlmContent ''Staging deploy failure''))
        settings_with_key two_messages ?q"
  let ?resp = "\<lparr> suggested_title = ''Staging deploy failure'', anchor_id = 1 \<rparr>"
  have h1: "parse_int (post_get ?q ''message_id'' None) ''message_id'' = Inr (Some 1)"
    by code_simp
  have h2: "parse_int_list_from_post ?q ''message_ids'' = Inr [1, 2]"
    by code_simp
  have r: "fst ?run = Inr ?resp"
    by code_simp
  then have h3: "?run = (Inr ?resp, snd ?run)"
    by (simp add: prod_eq_iff)
  show ?thesis
    using anchor_id_of_response [OF h1 h2 h3] h1 h2 r
    by simp
qed

lemma parse_items_bad:
  "item \<in> set items \<Longrightarrow> item \<noteq> [] \<Longrightarrow> py_int item = None \<Longrightarrow>
   parse_items key out items = Inl (JsonableError (key @ '' contains non-integer value''))"
proof (induction items arbitrary: out)
  case Nil
  then show ?case by simp
next
  case (Cons a items)
  show ?case
  proof (cases "a = item")
    case True
    with Cons.prems show ?thesis by simp
  next
    case False
    with Cons.prems have "item \<in> set items" by simp
    from Cons.IH [OF this Cons.prems(2,3)] show ?thesis
      by (simp split: option.splits)
  qed
qed

lemma parse_items_blank:
  "filter (\<lambda>i. i \<noteq> []) items = [] \<Longrightarrow> parse_items key out items = Inr out"
  by (induction items arbitrary: out) (auto split: if_splits)

text \<open>
  C9. The claim: a non-integer value supplied in either field, the empty string
  included, is a validation error. The empty string is no integer for \<open>int()\<close>, but
  \<open>_parse_int\<close> reads it as an absent \<open>message_id\<close> and the list parser skips it: the
  request with \<open>message_id = ""\<close> and \<open>message_ids = ["", "2"]\<close> is answered. So are a
  request whose \<open>message_id\<close> has the values \<open>abc\<close> and \<open>1\<close>, of which \<open>get\<close> reads
  the last, and one with \<open>abc\<close> under \<open>message_ids\<close> next to a value under
  \<open>message_ids[]\<close>, the key that is read first.
\<close>

theorem unread_and_empty_values_accepted:
  "py_int [] = None
   \<and> fst (suggest_topic_title_backend (llm_always LlmFailed) settings_no_key two_messages
          (form [(''message_id'', ['''']), (''message_ids'', ['''', ''2''])]))
     = Inr \<lparr> suggested_title = [], anchor_id = 2 \<rparr>
   \<and> py_int ''abc'' = None
   \<and> fst (suggest_topic_title_backend (llm_always LlmFailed) settings_no_key two_messages
          (form [(''message_id'', [''abc'', ''1''])]))
     = Inr \<lparr> suggested_title = [], anchor_id = 1 \<rparr>
   \<and> fst (suggest_topic_title_backend (llm_always LlmFailed) settings_no_key two_messages
          (form [(''message_ids[]'', [''2'']), (''message_ids'', [''abc''])]))
     = Inr \<lparr> suggested_title = [], anchor_id = 2 \<rparr>"
  by code_simp

text \<open>
  C9, amended. The values the handler reads are the last value of \<open>message_id\<close> and
  the values of \<open>message_ids[]\<close>, or of \<open>message_ids\<close> when there are none. A non-empty
  value read for \<open>message_id\<close> that \<open>int()\<close> rejects is the error "message_id is not
  an integer". A non-empty list item that \<open>int()\<close> rejects is an error as well: that of
  \<open>message_id\<close> if there is one, otherwise "message_ids contains non-integer value".
  When \<open>message_id\<close> is absent or empty and every list item is empty, the error is
  "message_id or message_ids is required". Each error comes with an empty trace: no
  message was looked up and no completion API called. The empty string is not an error:
  as \<open>message_id\<close> it parses to an absent id, and as a list item it is skipped.
\<close>

theorem topic_validation_errors:
  "(post_get q ''message_id'' None = Some v \<and> v \<noteq> [] \<and> py_int v = None \<longrightarrow>
      suggest_topic_title_backend llm st db q
        = (Inl (JsonableError ''message_id is not an integer''), []))
   \<and> (item \<in> set (raw_list_from_post q ''message_ids'') \<and> item \<noteq> [] \<and> py_int item = None \<longrightarrow>
      suggest_topic_title_backend llm st db q
        = (Inl (case parse_int (post_get q ''message_id'' None) ''message_id'' of
                  Inl e \<Rightarrow> e
                | Inr message_id \<Rightarrow> JsonableError ''message_ids contains non-integer value''),
           []))
   \<and> (or_empty (post_get q ''message_id'' None) = []
       \<and> filter (\<lambda>i. i \<noteq> []) (raw_list_from_post q ''message_ids'') = [] \<longrightarrow>
      suggest_topic_title_backend llm st db q
        = (Inl (JsonableError ''message_id or message_ids is required''), []))
   \<and> parse_int (Some []) ''message_id'' = Inr None
   \<and> parse_items ''message_ids'' out ([] # items) = parse_items ''message_ids'' out items"
proof (intro conjI impI)
  assume "post_get q ''message_id'' None = Some v \<and> v \<noteq> [] \<and> py_int v = None"
  then show "suggest_topic_title_backend llm st db q
        = (Inl (JsonableError ''message_id is not an integer''), [])"
    by (simp add: suggest_topic_title_backend_def parse_int_def)
next
  assume h: "item \<in> set (raw_list_from_post q ''message_ids'') \<and> item \<noteq> [] \<and> py_int item = None"
  then have "parse_int_list_from_post q ''message_ids''
      = Inl (JsonableError (''message_ids'' @ '' contains non-integer value''))"
    unfolding parse_int_list_from_post_def by (intro parse_items_bad) auto
  then show "suggest_topic_title_backend llm st db q
        = (Inl (case parse_int (post_get q ''message_id'' None) ''message_id'' of
                  Inl e \<Rightarrow> e
                | Inr message_id \<Rightarrow> JsonableError ''message_ids contains non-integer value''),
           [])"
    by (simp add: suggest_topic_title_backend_def split: sum.splits)
next
  assume h: "or_empty (post_get q ''message_id'' None) = []
       \<and> filter (\<lambda>i. i \<noteq> []) (raw_list_from_post q ''message_ids'') = []"
  then have p1: "parse_int (post_get q ''message_id'' None) ''message_id'' = Inr None"
    by (auto simp: parse_int_def or_empty_def split: option.splits)
  from h have p2: "parse_int_list_from_post q ''message_ids'' = Inr []"
    by (simp add: parse_int_list_from_post_def parse_items_blank)
  show "suggest_topic_title_backend llm st db q
        = (Inl (JsonableError ''message_id or message_ids is required''), [])"
    by (simp add: suggest_topic_title_backend_def p1 p2)
next
  show "parse_int (Some []) ''message_id'' = Inr None"
    by (simp add: parse_int_def)
next
  show "parse_items ''message_ids'' out ([] # items) = parse_items ''message_ids'' out items"
    by simp
qed

theorem topic_validation_errors_witness:
  "post_get (form [(''message_id'', [''abc''])]) ''message_id'' None = Some ''abc''
   \<and> py_int ''abc'' = None
   \<and> suggest_topic_title_backend (llm_always LlmFailed) settings_no_key two_messages
        (form [(''message_id'', [''abc''])])
        = (Inl (JsonableError ''message_id is not an integer''), [])
   \<and> parse_int (post_get (form [(''message_ids[]'', [''1'', ''x2''])]) ''message_id'' None)
        ''message_id'' = Inr None
   \<and> ''x2'' \<in> set (raw_list_from_post (form [(''message_ids[]'', [''1'', ''x2''])]) ''message_ids'')
   \<and> py_int ''x2'' = None
   \<and> suggest_topic_title_backend (llm_always LlmFailed) settings_no_key two_messages
        (form [(''message_ids[]'', [''1'', ''x2''])])
        = (Inl (JsonableError ''message_ids contains non-integer value''), [])
   \<and> or_empty (post_get (form [(''message_id'', [''''])]) ''message_id'' None) = []
   \<and> filter (\<lambda>i. i \<noteq> []) (raw_list_from_post (form [(''message_id'', [''''])]) ''message_ids'') = []
   \<and> suggest_topic_title_backend (llm_always LlmFailed) settings_no_key two_messages
        (form [(''message_id'', [''''])])
        = (Inl (JsonableError ''message_id or message_ids is required''), [])"
proof -
  let ?q1 = "form [(''message_id'', [''abc''])]"
  let ?q2 = "form [(''message_ids[]'', [''1'', ''x2''])]"
  let ?q3 = "form [(''message_id'', [''''])]"
  have a1: "post_get ?q1 ''message_id'' None = Some ''abc''" by code_simp
  have a2: "py_int ''abc'' = None" by code_simp
  have b1: "parse_int (post_get ?q2 ''message_id'' None) ''message_id'' = Inr None" by code_simp
  have b2: "''x2'' \<in> set (raw_list_from_post ?q2 ''message_ids'')"
    by (simp add: raw_list_from_post_def getlist_def form_def)
  have b3: "py_int ''x2'' = None" by code_simp
  have c1: "or_empty (post_get ?q3 ''message_id'' None) = []" by code_simp
  have c2: "filter (\<lambda>i. i \<noteq> []) (raw_list_from_post ?q3 ''message_ids'') = []" by code_simp
  note t1 = topic_validation_errors [where q = ?q1 and v = "''abc''" and llm = "llm_always LlmFailed"
      and st = settings_no_key and db = two_messages,
      THEN conjunct1, rule_format]
  note t2 = topic_validation_errors [where q = ?q2 and llm = "llm_always LlmFailed" and st = settings_no_key
      and db = two_messages and item = "''x2''",
      THEN conjunct2, THEN conjunct1, rule_format]
  note t3 = topic_validation_errors [where q = ?q3 and llm = "llm_always LlmFailed" and st = settings_no_key
      and db = two_messages,
      THEN conjunct2, THEN conjunct2, THEN conjunct1, rule_format]
  have r1: "suggest_topic_title_backend (llm_always LlmFailed) settings_no_key two_messages ?q1
        = (Inl (JsonableError ''message_id is not an integer''), [])"
    using t1 a1 a2 by simp
  have r2: "suggest_topic_title_backend (llm_always LlmFailed) settings_no_key two_messages ?q2
        = (Inl (JsonableError ''message_ids contains non-integer value''), [])"
    using t2 b1 b2 b3 by simp
  have r3: "suggest_topic_title_backend (llm_always LlmFailed) settings_no_key two_messages ?q3
        = (Inl (JsonableError ''message_id or message_ids is required''), [])"
    using t3 c1 c2 by simp
  show ?thesis
    using a1 a2 r1 b1 b2 b3 r2 c1 c2 r3 by simp
qed

section \<open>The bounds on the id lists\<close>

lemma those_replicate:
  "f x = Some y \<Longrightarrow> those (map f (replicate n x)) = Some (replicate n y)"
  by (induction n) simp_all

lemma parse_items_replicate:
  "item \<noteq> [] \<Longrightarrow> py_int item = Some i \<Longrightarrow>
   parse_items key out (replicate n item) = Inr (out @ replicate n i)"
proof (induction n arbitrary: out)
  case 0
  show ?case by simp
next
  case (Suc n)
  from Suc.IH [OF Suc.prems, of "out @ [i]"] Suc.prems show ?case
    by (simp add: replicate_app_Cons_same)
qed

lemma those_bad_last:
  "f x = Some y \<Longrightarrow> f z = None \<Longrightarrow> those (map f (replicate n x @ [z])) = None"
  by (induction n) simp_all

text \<open>
  C10. The claim: a request whose id list exceeds the bound ends in the count-limit
  error. Both handlers check that the values are integers before they count: with 51
  ids and the \<open>message_id\<close> \<open>x\<close> the topic handler raises "message_id is not an
  integer", and with 200 ids and the value \<open>x\<close> the recap handler raises "message_ids
  must be integers". Neither fetches a message or calls the completion API.
\<close>

theorem integer_check_precedes_count_limit:
  "parse_int_list_from_post
       (form [(''message_id'', [''x'']), (''message_ids'', replicate 51 ''7'')]) ''message_ids''
     = Inr (replicate 51 7)
   \<and> length (replicate 51 (7 :: int)) > 50
   \<and> suggest_topic_title_backend (llm_always LlmFailed) settings_with_key two_messages
        (form [(''message_id'', [''x'']), (''message_ids'', replicate 51 ''7'')])
     = (Inl (JsonableError ''message_id is not an integer''), [])
   \<and> recap_raw_ids \<lparr> POST = form [(''message_ids'', replicate 200 ''7'' @ [''x''])],
                       body = BodyEmpty \<rparr>
     = Inr (replicate 200 ''7'' @ [''x''])
   \<and> length (replicate 200 ''7'' @ [''x'']) > 200
   \<and> message_recap id (llm_always LlmFailed) settings_with_key two_messages
        \<lparr> POST = form [(''message_ids'', replicate 200 ''7'' @ [''x''])], body = BodyEmpty \<rparr>
     = (Inl (JsonableError ''message_ids must be integers''), [])"
proof -
  have seven: "py_int ''7'' = Some 7" by code_simp
  have ex: "py_int ''x'' = None" by code_simp
  have a: "parse_int_list_from_post
       (form [(''message_id'', [''x'']), (''message_ids'', replicate 51 ''7'')]) ''message_ids''
     = Inr (replicate 51 7)"
    using parse_items_replicate [of "''7''" 7 "''message_ids''" "[]" 51] seven
    by (simp add: parse_int_list_from_post_def raw_list_from_post_def getlist_def form_def)
  have b: "suggest_topic_title_backend (llm_always LlmFailed) settings_with_key two_messages
        (form [(''message_id'', [''x'']), (''message_ids'', replicate 51 ''7'')])
     = (Inl (JsonableError ''message_id is not an integer''), [])"
    using ex by (simp add: suggest_topic_title_backend_def parse_int_def post_get_def form_def)
  have c: "recap_raw_ids \<lparr> POST = form [(''message_ids'', replicate 200 ''7'' @ [''x''])],
                       body = BodyEmpty \<rparr>
     = Inr (replicate 200 ''7'' @ [''x''])"
    by (simp add: recap_raw_ids_def getlist_def form_def)
  have d: "ints_of (replicate 200 ''7'' @ [''x'']) = None"
    unfolding ints_of_def using seven ex by (rule those_bad_last)
  have e: "message_recap id (llm_always LlmFailed) settings_with_key two_messages
        \<lparr> POST = form [(''message_ids'', replicate 200 ''7'' @ [''x''])], body = BodyEmpty \<rparr>
     = (Inl (JsonableError ''message_ids must be integers''), [])"
    using c d by (simp add: message_recap_def)
  show ?thesis using a b c e by simp
qed

text \<open>
  C10, amended. A recap request whose values all parse as integers and number more
  than 200, and a topic-suggestion request whose \<open>message_id\<close> and list items parse as
  integers with more than 50 ids, end in the error "Too many messages requested" with an
  empty trace: nothing was fetched, no completion API was called, and the list was not
  cut.
\<close>

theorem id_count_limits:
  "(recap_raw_ids request = Inr raw_ids \<and> ints_of raw_ids = Some message_ids
      \<and> length message_ids > 200 \<longrightarrow>
      message_recap clean llm st db request
        = (Inl (JsonableError ''Too many messages requested (max 200)''), []))
   \<and> (parse_int (post_get q ''message_id'' None) ''message_id'' = Inr message_id
       \<and> parse_int_list_from_post q ''message_ids'' = Inr ids \<and> length ids > 50 \<longrightarrow>
      suggest_topic_title_backend llm st db q
        = (Inl (JsonableError ''Too many messages requested (max 50)''), []))"
proof (intro conjI impI)
  assume h: "recap_raw_ids request = Inr raw_ids \<and> ints_of raw_ids = Some message_ids
      \<and> length message_ids > 200"
  then have "raw_ids \<noteq> []" by (auto simp: ints_of_def)
  with h show "message_recap clean llm st db request
        = (Inl (JsonableError ''Too many messages requested (max 200)''), [])"
    by (simp add: message_recap_def)
next
  assume h: "parse_int (post_get q ''message_id'' None) ''message_id'' = Inr message_id
       \<and> parse_int_list_from_post q ''message_ids'' = Inr ids \<and> length ids > 50"
  then have "ids \<noteq> []" by auto
  with h show "suggest_topic_title_backend llm st db q
        = (Inl (JsonableError ''Too many messages requested (max 50)''), [])"
    by (simp add: suggest_topic_title_backend_def resolve_texts_def)
qed

theorem id_count_limits_witness:
  "recap_raw_ids \<lparr> POST = form [(''message_ids'', replicate 201 ''7'')], body = BodyEmpty \<rparr>
     = Inr (replicate 201 ''7'')
   \<and> ints_of (replicate 201 ''7'') = Some (replicate 201 7)
   \<and> length (replicate 201 (7 :: int)) > 200
   \<and> message_recap id (llm_always LlmFailed) settings_with_key two_messages
        \<lparr> POST = form [(''message_ids'', replicate 201 ''7'')], body = BodyEmpty \<rparr>
        = (Inl (JsonableError ''Too many messages requested (max 200)''), [])
   \<and> parse_int (post_get (form [(''message_ids'', replicate 51 ''7'')]) ''message_id'' None)
        ''message_id'' = Inr None
   \<and> parse_int_list_from_post (form [(''message_ids'', replicate 51 ''7'')]) ''message_ids''
        = Inr (replicate 51 7)
   \<and> length (replicate 51 (7 :: int)) > 50
   \<and> suggest_topic_title_backend (llm_always LlmFailed) settings_with_key two_messages
        (form [(''message_ids'', replicate 51 ''7'')])
        = (Inl (JsonableError ''Too many messages requested (max 50)''), [])"
proof -
  let ?rq = "\<lparr> POST = form [(''message_ids'', replicate 201 ''7'')], body = BodyEmpty \<rparr>"
  let ?q = "form [(''message_ids'', replicate 51 ''7'')]"
  have seven: "py_int ''7'' = Some 7" by code_simp
  have a1: "recap_raw_ids ?rq = Inr (replicate 201 ''7'')"
    by (simp add: recap_raw_ids_def getlist_def form_def)
  have a2: "ints_of (replicate 201 ''7'') = Some (replicate 201 7)"
    unfolding ints_of_def using seven by (rule those_replicate)
  have a3: "length (replicate 201 (7 :: int)) > 200" by simp
  have b1: "parse_int (post_get ?q ''message_id'' None) ''message_id'' = Inr None"
    by (simp add: parse_int_def post_get_def form_def)
  have b2: "parse_int_list_from_post ?q ''message_ids'' = Inr (replicate 51 7)"
    using parse_items_replicate [of "''7''" 7 "''message_ids''" "[]" 51] seven
    by (simp add: parse_int_list_from_post_def raw_list_from_post_def getlist_def form_def)
  have b3: "length (replicate 51 (7 :: int)) > 50" by simp
  note t1 = id_count_limits [where request = ?rq and raw_ids = "replicate 201 ''7''"
      and message_ids = "replicate 201 7" and clean = id and llm = "llm_always LlmFailed"
      and st = settings_with_key and db = two_messages, THEN conjunct1, rule_format]
  note t2 = id_count_limits [where q = ?q and message_id = None and ids = "replicate 51 7"
      and llm = "llm_always LlmFailed" and st = settings_with_key and db = two_messages, THEN conjunct2, rule_format]
  have r1: "message_recap id (llm_always LlmFailed) settings_with_key two_messages ?rq
        = (Inl (JsonableError ''Too many messages requested (max 200)''), [])"
    using t1 a1 a2 a3 by blast
  have r2: "suggest_topic_title_backend (llm_always LlmFailed) settings_with_key two_messages ?q
        = (Inl (JsonableError ''Too many messages requested (max 50)''), [])"
    using t2 b1 b2 b3 by blast
  show ?thesis
    using a1 a2 a3 r1 b1 b2 b3 r2 by blast
qed

end
